theory Spec2Isabelle
  imports Complex_Main "HOL-Library.AList" "HOL-Library.Sublist"
begin

section \<open>JavaScript values\<close>

text \<open>
  The client in \<^verbatim>\<open>product_api.js\<close> is duck-typed: its validation distinguishes
  \<^verbatim>\<open>undefined\<close>, \<^verbatim>\<open>null\<close>, falsy values, arrays and objects. The values
  it handles are modelled as a tree. A finite number is a rational (no arithmetic is done on
  payload numbers, only truthiness, identity and conversion to text). A string is a list of
  characters, one per code unit. An object is an association list in insertion order; there
  are no function values, so a property that the code calls as a method and that holds a
  value here is not callable.
\<close>

datatype jsnum = Fin rat | NaN | PosInf | NegInf

datatype jsval =
    JUndefined
  | JNull
  | JBool bool
  | JNum jsnum
  | JStr string
  | JArr "jsval list"
  | JObj "(string \<times> jsval) list"

datatype type_error =
    Destructure string
  | NullishRead string
  | NotCallable string
  | ToPrimitive
  | ByteLengthArg

datatype js_error = Error string | TypeError type_error

text \<open>\<^verbatim>\<open>!v\<close> is \<open>\<not> truthy v\<close>.\<close>

fun truthy :: "jsval \<Rightarrow> bool" where
  "truthy JUndefined = False"
| "truthy JNull = False"
| "truthy (JBool b) = b"
| "truthy (JNum n) = (n \<noteq> Fin 0 \<and> n \<noteq> NaN)"
| "truthy (JStr s) = (s \<noteq> [])"
| "truthy (JArr xs) = True"
| "truthy (JObj kvs) = True"

definition nullish :: "jsval \<Rightarrow> bool" where
  "nullish v = (v = JUndefined \<or> v = JNull)"

text \<open>
  \<^verbatim>\<open>v.k\<close> on a value that is neither \<^verbatim>\<open>undefined\<close> nor \<^verbatim>\<open>null\<close>, for the
  property names this client reads (none of them is a built-in property of a string, number,
  boolean or array).
\<close>

fun field :: "jsval \<Rightarrow> string \<Rightarrow> jsval" where
  "field (JObj kvs) k = (case map_of kvs k of None \<Rightarrow> JUndefined | Some v \<Rightarrow> v)"
| "field v k = JUndefined"

text \<open>A destructuring default \<^verbatim>\<open>{k = d}\<close> applies to \<^verbatim>\<open>undefined\<close> only.\<close>

definition dflt :: "jsval \<Rightarrow> jsval \<Rightarrow> jsval" where
  "dflt v d = (if v = JUndefined then d else v)"

text \<open>\<^verbatim>\<open>a || b\<close>\<close>

definition js_or :: "jsval \<Rightarrow> jsval \<Rightarrow> jsval" where
  "js_or a b = (if truthy a then a else b)"

text \<open>\<^verbatim>\<open>v?.k\<close>\<close>

definition opt_prop :: "jsval \<Rightarrow> string \<Rightarrow> jsval" where
  "opt_prop v k = (if nullish v then JUndefined else field v k)"

text \<open>
  Conversion to a string, as a template literal does it. The text of a number is the
  engine's (\<open>nt\<close>). An array joins its elements with commas, a nullish element giving the
  empty string. A plain object gives \<^verbatim>\<open>[object Object]\<close>, unless it has a property
  \<^verbatim>\<open>toString\<close> of its own, which is not callable here.
\<close>

fun to_string :: "(jsnum \<Rightarrow> string) \<Rightarrow> jsval \<Rightarrow> js_error + string"
  and join_elems :: "(jsnum \<Rightarrow> string) \<Rightarrow> jsval list \<Rightarrow> js_error + string" where
  "to_string nt JUndefined = Inr ''undefined''"
| "to_string nt JNull = Inr ''null''"
| "to_string nt (JBool b) = Inr (if b then ''true'' else ''false'')"
| "to_string nt (JNum n) = Inr (nt n)"
| "to_string nt (JStr s) = Inr s"
| "to_string nt (JArr xs) = join_elems nt xs"
| "to_string nt (JObj kvs) =
     (if map_of kvs ''toString'' = None then Inr ''[object Object]'' else Inl (TypeError ToPrimitive))"
| "join_elems nt [] = Inr []"
| "join_elems nt (x # xs) =
     (case (if nullish x then Inr [] else to_string nt x) of
        Inl err \<Rightarrow> Inl err
      | Inr s \<Rightarrow>
          (if xs = [] then Inr s
           else (case join_elems nt xs of Inl err \<Rightarrow> Inl err | Inr t \<Rightarrow> Inr (s @ '','' @ t))))"

text \<open>The method call \<^verbatim>\<open>v.toString()\<close>: it throws on \<^verbatim>\<open>null\<close> and \<^verbatim>\<open>undefined\<close>.\<close>

definition call_toString :: "(jsnum \<Rightarrow> string) \<Rightarrow> jsval \<Rightarrow> js_error + string" where
  "call_toString nt v =
     (if nullish v then Inl (TypeError (NullishRead ''toString''))
      else (case v of
              JObj kvs \<Rightarrow>
                (if map_of kvs ''toString'' = None then Inr ''[object Object]''
                 else Inl (TypeError (NotCallable ''toString'')))
            | _ \<Rightarrow> to_string nt v))"

text \<open>\<^verbatim>\<open>s.toLowerCase()\<close> on the letters A to Z; other characters are kept.\<close>

definition lower_char :: "char \<Rightarrow> char" where
  "lower_char c =
     (case map_of (zip ''ABCDEFGHIJKLMNOPQRSTUVWXYZ'' ''abcdefghijklmnopqrstuvwxyz'') c of
        None \<Rightarrow> c
      | Some l \<Rightarrow> l)"

definition toLowerCase :: "string \<Rightarrow> string" where
  "toLowerCase s = map lower_char s"

section \<open>The platform and the transport\<close>

text \<open>
  What the server and the network do with one dispatched request. The status of a reply is
  the status the transport library sees at the end (after any redirect it follows).
\<close>

datatype wire =
    Responded int jsval
  | NoResponse string
  | NotDispatched string

record axios_config =
  cfg_method :: string
  cfg_url :: string
  cfg_headers :: "(string \<times> jsval) list"
  cfg_timeout :: nat
  cfg_params :: "(string \<times> jsval) list option"
  cfg_data :: "jsval option"

record response =
  resp_status :: int
  resp_data :: jsval

text \<open>
  The error object the \<^verbatim>\<open>catch\<close> block inspects: \<^verbatim>\<open>error.response\<close>,
  the truthiness of \<^verbatim>\<open>error.request\<close>, and \<^verbatim>\<open>error.message\<close>.
\<close>

record caught =
  err_response :: "response option"
  err_request :: bool
  err_message :: string

text \<open>
  Everything \<^verbatim>\<open>request\<close> takes from outside the repository during one call: the
  network, the clock (\<open>now k\<close> is the \<open>k\<close>-th reading of \<^verbatim>\<open>Date.now()\<close> in the call,
  \<open>iso k\<close> the \<open>k\<close>-th \<^verbatim>\<open>new Date().toISOString()\<close>), and the texts the engine
  produces: of a number, of \<^verbatim>\<open>new URLSearchParams(params).toString()\<close>, of the
  response size in KB
  (\<^verbatim>\<open>(Buffer.byteLength(JSON.stringify(d), 'utf8') / 1024).toFixed(2)\<close>), and of
  the message of a \<^verbatim>\<open>TypeError\<close>.
\<close>

record env =
  net :: "axios_config \<Rightarrow> wire"
  now :: "nat \<Rightarrow> int"
  iso :: "nat \<Rightarrow> string"
  number_text :: "jsnum \<Rightarrow> string"
  query_string :: "(string \<times> jsval) list \<Rightarrow> string"
  kb_text :: "jsval \<Rightarrow> string"
  type_error_text :: "type_error \<Rightarrow> string"

text \<open>
  The library's default \<^verbatim>\<open>validateStatus\<close>; the configuration built by
  \<^verbatim>\<open>request\<close> does not replace it.
\<close>

definition validateStatus :: "int \<Rightarrow> bool" where
  "validateStatus s = (200 \<le> s \<and> s < 300)"

text \<open>
  \<^verbatim>\<open>await axios(config)\<close>: the promise resolves with the response when the server
  replied with a status that \<open>validateStatus\<close> accepts; it rejects with the response
  attached when the status is refused, with only the request attached when no reply came,
  and with neither when the request was not sent.
\<close>

definition axios :: "env \<Rightarrow> axios_config \<Rightarrow> caught + response" where
  "axios e config =
     (case net e config of
        Responded s d \<Rightarrow>
          (if validateStatus s then Inr \<lparr>resp_status = s, resp_data = d\<rparr>
           else Inl \<lparr>err_response = Some \<lparr>resp_status = s, resp_data = d\<rparr>,
                     err_request = True,
                     err_message = ''Request failed with status code '' @ number_text e (Fin (of_int s))\<rparr>)
      | NoResponse m \<Rightarrow> Inl \<lparr>err_response = None, err_request = True, err_message = m\<rparr>
      | NotDispatched m \<Rightarrow> Inl \<lparr>err_response = None, err_request = False, err_message = m\<rparr>)"

text \<open>
  What a caller can observe besides the returned value: the configurations handed to the
  transport, and the console. A console line is a text, or a value printed with
  \<^verbatim>\<open>JSON.stringify(v, null, 2)\<close>.
\<close>

datatype log_line = Text string | Json jsval

record world =
  calls :: "axios_config list"
  console :: "log_line list"

definition console_log :: "log_line list \<Rightarrow> world \<Rightarrow> world" where
  "console_log ls w = w\<lparr>console := console w @ ls\<rparr>"

definition int_val :: "int \<Rightarrow> jsval" where
  "int_val i = JNum (Fin (of_int i))"

definition nl :: char where
  "nl = CHR 0x0A"

section \<open>The request core\<close>

text \<open>
  \<^verbatim>\<open>new URLSearchParams(params).toString()\<close>: every value is converted to a string
  first, which throws where the conversion does; the encoding of the pairs is the engine's.
\<close>

fun first_error :: "(js_error + 'a) list \<Rightarrow> js_error option" where
  "first_error [] = None"
| "first_error (Inl err # rs) = Some err"
| "first_error (Inr v # rs) = first_error rs"

definition search_params_text :: "env \<Rightarrow> (string \<times> jsval) list \<Rightarrow> js_error + string" where
  "search_params_text e kvs =
     (case first_error (map (\<lambda>kv. to_string (number_text e) (snd kv)) kvs) of
        Some err \<Rightarrow> Inl err
      | None \<Rightarrow> Inr (query_string e kvs))"

text \<open>\<^verbatim>\<open>params && Object.keys(params).length > 0\<close>\<close>

definition has_params :: "(string \<times> jsval) list option \<Rightarrow> bool" where
  "has_params params = (case params of None \<Rightarrow> False | Some kvs \<Rightarrow> kvs \<noteq> [])"

text \<open>Lines 51 to 55: the URL that is logged.\<close>

definition full_url :: "env \<Rightarrow> string \<Rightarrow> (string \<times> jsval) list option \<Rightarrow> js_error + string" where
  "full_url e url params =
     (case params of
        None \<Rightarrow> Inr url
      | Some kvs \<Rightarrow>
          (if kvs = [] then Inr url
           else (case search_params_text e kvs of
                   Inl err \<Rightarrow> Inl err
                 | Inr q \<Rightarrow> Inr (url @ (if CHR ''?'' \<in> set url then ''&'' else ''?'') @ q))))"

text \<open>
  Line 65. \<^verbatim>\<open>substring(0, 8)\<close> stops at the end of a shorter key, and
  \<^verbatim>\<open>substring(apiKey.length - 4)\<close> starts at 0 when the index is negative, which is
  what truncating subtraction on \<open>nat\<close> gives.
\<close>

definition mask_key :: "string \<Rightarrow> string" where
  "mask_key apiKey = take 8 apiKey @ ''...'' @ drop (length apiKey - 4) apiKey"

text \<open>
  Lines 62 to 66. A truthy header value that is not a string has no method
  \<^verbatim>\<open>substring\<close>: the call throws, outside the \<^verbatim>\<open>try\<close> block.
\<close>

definition safeHeaders :: "(string \<times> jsval) list \<Rightarrow> js_error + (string \<times> jsval) list" where
  "safeHeaders headers =
     (case map_of headers ''X-Api-Key'' of
        None \<Rightarrow> Inr headers
      | Some v \<Rightarrow>
          (if truthy v then
             (case v of
                JStr apiKey \<Rightarrow> Inr (AList.update ''X-Api-Key'' (JStr (mask_key apiKey)) headers)
              | _ \<Rightarrow> Inl (TypeError (NotCallable ''substring'')))
           else Inr headers))"

text \<open>Lines 58 to 60, printed before the headers are masked.\<close>

definition request_log_head :: "env \<Rightarrow> string \<Rightarrow> string \<Rightarrow> log_line list" where
  "request_log_head e method fullUrl =
     [Text (nl # ''========== Request Log ==========''),
      Text (''['' @ iso e 0 @ ''] '' @ method @ '' '' @ fullUrl),
      Text ''--- Request Headers ---'']"

text \<open>Lines 67 to 78.\<close>

definition request_log_tail ::
  "(string \<times> jsval) list \<Rightarrow> jsval \<Rightarrow> (string \<times> jsval) list option \<Rightarrow> log_line list" where
  "request_log_tail safe data params =
     [Json (JObj safe)]
     @ (case params of
          None \<Rightarrow> []
        | Some kvs \<Rightarrow> (if kvs = [] then [] else [Text ''--- Query Parameters ---'', Json (JObj kvs)]))
     @ (if truthy data then [Text ''--- Request Body ---'', Json data] else [])
     @ [Text (''=============================='' @ [nl])]"

text \<open>Lines 82 to 97.\<close>

definition build_config ::
  "string \<Rightarrow> string \<Rightarrow> (string \<times> jsval) list \<Rightarrow> jsval \<Rightarrow> (string \<times> jsval) list option
   \<Rightarrow> axios_config" where
  "build_config method url headers data params =
     \<lparr>cfg_method = method, cfg_url = url, cfg_headers = headers, cfg_timeout = 30000,
      cfg_params = (if has_params params then params else None),
      cfg_data = (if truthy data then Some data else None)\<rparr>"

definition shown_int :: "env \<Rightarrow> int \<Rightarrow> string" where
  "shown_int e d = number_text e (Fin (of_int d))"

text \<open>
  Lines 101 to 118, after the promise resolved. \<^verbatim>\<open>JSON.stringify(undefined)\<close> is
  \<^verbatim>\<open>undefined\<close>, on which \<^verbatim>\<open>Buffer.byteLength\<close> throws a \<^verbatim>\<open>TypeError\<close>;
  the \<^verbatim>\<open>catch\<close> block receives it, with no response and no request attached.
\<close>

definition on_response :: "env \<Rightarrow> response \<Rightarrow> caught + (jsval \<times> log_line list)" where
  "on_response e r =
     (let duration = now e 1 - now e 0 in
      if resp_data r = JUndefined then
        Inl \<lparr>err_response = None, err_request = False,
             err_message = type_error_text e ByteLengthArg\<rparr>
      else
        Inr (JObj [(''success'', JBool True),
                   (''status'', int_val (resp_status r)),
                   (''data'', resp_data r),
                   (''duration'', int_val duration)],
             [Text (nl # ''========== Response Log ==========''),
              Text (''['' @ iso e 1 @ ''] Response Time: '' @ shown_int e duration @ ''ms''),
              Text (''Status Code: '' @ shown_int e (resp_status r)),
              Text (''Response Size: '' @ kb_text e (resp_data r) @ '' KB''),
              Text ''--- Response Data ---'',
              Json (resp_data r),
              Text (''=================================='' @ [nl])]))"

text \<open>
  Lines 120 to 166, the \<^verbatim>\<open>catch\<close> block; \<open>k\<close> is the number of the clock reading
  it takes.
\<close>

definition on_error :: "env \<Rightarrow> nat \<Rightarrow> caught \<Rightarrow> jsval \<times> log_line list" where
  "on_error e k c =
     (let duration = now e k - now e 0;
          head = [Text (nl # ''========== Error Log ==========''),
                  Text (''['' @ iso e 1 @ ''] Request Failed after '' @ shown_int e duration @ ''ms'')];
          foot = [Text (''============================'' @ [nl])]
      in case err_response c of
           Some r \<Rightarrow>
             (JObj [(''success'', JBool False),
                    (''status'', int_val (resp_status r)),
                    (''error'', resp_data r),
                    (''message'',
                       js_or (js_or (opt_prop (resp_data r) ''message'')
                                    (opt_prop (resp_data r) ''error''))
                             (JStr ''Request failed'')),
                    (''duration'', int_val duration)],
              head @ [Text (''Status Code: '' @ shown_int e (resp_status r)),
                      Text ''--- Error Response ---'',
                      Json (resp_data r)] @ foot)
         | None \<Rightarrow>
             (if err_request c then
                (JObj [(''success'', JBool False),
                       (''status'', JNull),
                       (''error'', JStr ''No response received''),
                       (''message'',
                          js_or (JStr (err_message c)) (JStr ''Network error or server timeout'')),
                       (''duration'', int_val duration)],
                 head @ [Text ''No response received from server'',
                         Text (''Error: '' @ err_message c)] @ foot)
              else
                (JObj [(''success'', JBool False),
                       (''status'', JNull),
                       (''error'', JStr ''Request setup error''),
                       (''message'', JStr (err_message c)),
                       (''duration'', int_val duration)],
                 head @ [Text (''Request setup error: '' @ err_message c)] @ foot)))"

text \<open>
  Lines 80 to 167, the \<^verbatim>\<open>try\<close> statement once the configuration is built: the
  returned object and the lines printed. An exception of the \<^verbatim>\<open>try\<close> block
  reaches the \<^verbatim>\<open>catch\<close> block, which returns in each of its branches.
\<close>

definition try_block :: "env \<Rightarrow> axios_config \<Rightarrow> jsval \<times> log_line list" where
  "try_block e config =
     (case axios e config of
        Inl c \<Rightarrow> on_error e 1 c
      | Inr r \<Rightarrow>
          (case on_response e r of
             Inl c \<Rightarrow> on_error e 2 c
           | Inr done \<Rightarrow> done))"

text \<open>
  \<^verbatim>\<open>request(method, url, headers, data, params)\<close>. The result is \<open>Inl\<close> when the call
  throws to its caller and \<open>Inr\<close> of the returned object otherwise, with the world after the
  call. The two places that can throw are outside the \<^verbatim>\<open>try\<close> block.
\<close>

definition request ::
  "env \<Rightarrow> string \<Rightarrow> string \<Rightarrow> (string \<times> jsval) list \<Rightarrow> jsval \<Rightarrow> (string \<times> jsval) list option
   \<Rightarrow> world \<Rightarrow> (js_error + jsval) \<times> world" where
  "request e method url headers data params w =
     (case full_url e url params of
        Inl err \<Rightarrow> (Inl err, w)
      | Inr fullUrl \<Rightarrow>
          (let w1 = console_log (request_log_head e method fullUrl) w in
           case safeHeaders headers of
             Inl err \<Rightarrow> (Inl err, w1)
           | Inr safe \<Rightarrow>
               (let w2 = console_log (request_log_tail safe data params) w1;
                    config = build_config method url headers data params;
                    w3 = w2\<lparr>calls := calls w2 @ [config]\<rparr>
                in (Inr (fst (try_block e config)),
                    console_log (snd (try_block e config)) w3))))"

section \<open>The endpoints\<close>

record ProductApi =
  apikey :: jsval
  baseUrl :: string

text \<open>The constructor, lines 19 to 25.\<close>

definition new_ProductApi :: "jsval \<Rightarrow> js_error + ProductApi" where
  "new_ProductApi k =
     (if \<not> truthy k then Inl (Error ''apikey is required'')
      else Inr \<lparr>apikey = k, baseUrl = ''https://hstockplus.com/api/admin/v2''\<rparr>)"

definition getHeader :: "ProductApi \<Rightarrow> (string \<times> jsval) list" where
  "getHeader api = [(''X-Api-Key'', apikey api), (''Content-Type'', JStr ''application/json'')]"

text \<open>\<^verbatim>\<open>payload.k = v\<close>\<close>

definition set_field :: "string \<Rightarrow> jsval \<Rightarrow> (string \<times> jsval) list \<Rightarrow> (string \<times> jsval) list" where
  "set_field k v kvs = AList.update k v kvs"

text \<open>\<^verbatim>\<open>if (v) { payload.k = v; }\<close>\<close>

definition set_if_truthy :: "string \<Rightarrow> jsval \<Rightarrow> (string \<times> jsval) list \<Rightarrow> (string \<times> jsval) list" where
  "set_if_truthy k v kvs = (if truthy v then set_field k v kvs else kvs)"

text \<open>\<^verbatim>\<open>uploadImage(options = {})\<close>, lines 194 to 212.\<close>

definition uploadImage :: "env \<Rightarrow> ProductApi \<Rightarrow> jsval \<Rightarrow> world \<Rightarrow> (js_error + jsval) \<times> world" where
  "uploadImage e api options0 w =
     (let options = dflt options0 (JObj []) in
      if options = JNull then (Inl (TypeError (Destructure ''imageUrl'')), w)
      else
        (let imageUrl = field options ''imageUrl'';
             imageBase64 = field options ''imageBase64''
         in if \<not> truthy imageUrl \<and> \<not> truthy imageBase64 then
              (Inl (Error ''Either imageUrl or imageBase64 must be provided''), w)
            else
              request e ''POST'' (baseUrl api @ ''/upload-image'') (getHeader api)
                (JObj (set_if_truthy ''imageBase64'' imageBase64
                         (set_if_truthy ''imageUrl'' imageUrl [])))
                None w))"

text \<open>
  The loop of lines 295 to 308. Reading a property of an entry that is \<^verbatim>\<open>null\<close> or
  \<^verbatim>\<open>undefined\<close> throws a \<^verbatim>\<open>TypeError\<close>.
\<close>

definition validate_subproduct :: "jsval \<Rightarrow> js_error option" where
  "validate_subproduct subproduct =
     (if nullish subproduct then Some (TypeError (NullishRead ''sourceProductId''))
      else if \<not> truthy (field subproduct ''sourceProductId'') then
        Some (Error ''subproduct.sourceProductId is required'')
      else if \<not> truthy (field subproduct ''sourceName'') then
        Some (Error ''subproduct.sourceName is required'')
      else if field subproduct ''price'' = JUndefined \<or> field subproduct ''price'' = JNull then
        Some (Error ''subproduct.price is required'')
      else if field subproduct ''stock'' = JUndefined \<or> field subproduct ''stock'' = JNull then
        Some (Error ''subproduct.stock is required'')
      else None)"

fun validate_subproducts :: "jsval list \<Rightarrow> js_error option" where
  "validate_subproducts [] = None"
| "validate_subproducts (subproduct # rest) =
     (case validate_subproduct subproduct of
        Some err \<Rightarrow> Some err
      | None \<Rightarrow> validate_subproducts rest)"

text \<open>\<^verbatim>\<open>!subproducts || !Array.isArray(subproducts) || subproducts.length === 0\<close>\<close>

fun bad_subproducts :: "jsval \<Rightarrow> bool" where
  "bad_subproducts (JArr xs) = (xs = [])"
| "bad_subproducts v = True"

fun elements :: "jsval \<Rightarrow> jsval list" where
  "elements (JArr xs) = xs"
| "elements v = []"

text \<open>
  Lines 261 to 308 of \<^verbatim>\<open>addProduct\<close>: the destructuring (which throws on
  \<^verbatim>\<open>null\<close> and \<^verbatim>\<open>undefined\<close>) and the validation; \<open>None\<close> when nothing is thrown.
\<close>

definition validate_product :: "jsval \<Rightarrow> js_error option" where
  "validate_product productData =
     (if nullish productData then Some (TypeError (Destructure ''categoryName''))
      else if \<not> truthy (field productData ''categoryName'') then
        Some (Error ''categoryName is required'')
      else if \<not> truthy (field productData ''subcategoryName'') then
        Some (Error ''subcategoryName is required'')
      else if \<not> truthy (field productData ''sourceProductId'') then
        Some (Error ''sourceProductId is required'')
      else if \<not> truthy (field productData ''name'') then
        Some (Error ''name is required'')
      else if bad_subproducts (field productData ''subproducts'') then
        Some (Error ''subproducts is required and must contain at least one subproduct'')
      else validate_subproducts (elements (field productData ''subproducts'')))"

text \<open>
  Lines 311 to 343: the payload. After the defaults of lines 272 and 273,
  \<^verbatim>\<open>warrantyDays\<close> and \<^verbatim>\<open>active\<close> are never \<^verbatim>\<open>undefined\<close>, and the tests
  of lines 335 and 338 are kept as the source has them.
\<close>

definition build_payload :: "jsval \<Rightarrow> (string \<times> jsval) list" where
  "build_payload productData =
     (let warrantyDays = dflt (field productData ''warrantyDays'') (JNum (Fin 7));
          active = dflt (field productData ''active'') (JBool True);
          p0 = [(''categoryName'', field productData ''categoryName''),
                (''subcategoryName'', field productData ''subcategoryName''),
                (''sourceProductId'', field productData ''sourceProductId''),
                (''name'', field productData ''name''),
                (''subproducts'', field productData ''subproducts'')];
          p1 = set_if_truthy ''sourceUrl'' (field productData ''sourceUrl'') p0;
          p2 = set_if_truthy ''provider'' (field productData ''provider'') p1;
          p3 = set_if_truthy ''description'' (field productData ''description'') p2;
          p4 = set_if_truthy ''descriptionText'' (field productData ''descriptionText'') p3;
          p5 = set_if_truthy ''image'' (field productData ''image'') p4;
          p6 = (if warrantyDays \<noteq> JUndefined then set_field ''warrantyDays'' warrantyDays p5 else p5);
          p7 = (if active \<noteq> JUndefined then set_field ''active'' active p6 else p6)
      in set_if_truthy ''productType'' (field productData ''productType'') p7)"

definition addProduct :: "env \<Rightarrow> ProductApi \<Rightarrow> jsval \<Rightarrow> world \<Rightarrow> (js_error + jsval) \<times> world" where
  "addProduct e api productData w =
     (case validate_product productData of
        Some err \<Rightarrow> (Inl err, w)
      | None \<Rightarrow>
          request e ''POST'' (baseUrl api @ ''/products'') (getHeader api)
            (JObj (build_payload productData)) None w)"

text \<open>
  Lines 376 to 389 of \<^verbatim>\<open>getProducts(options = {})\<close>: the query parameters.
  \<^verbatim>\<open>isActive.toString()\<close> throws when \<^verbatim>\<open>isActive\<close> is \<^verbatim>\<open>null\<close>.
\<close>

definition getProducts_params :: "env \<Rightarrow> jsval \<Rightarrow> js_error + (string \<times> jsval) list" where
  "getProducts_params e options0 =
     (let options = dflt options0 (JObj []) in
      if options = JNull then Inl (TypeError (Destructure ''productType''))
      else
        (let productType = dflt (field options ''productType'') (JStr ''auto'');
             isActive = dflt (field options ''isActive'') (JBool True);
             limit = dflt (field options ''limit'') (JNum (Fin 50));
             offset = dflt (field options ''offset'') (JNum (Fin 0))
         in case call_toString (number_text e) isActive of
              Inl err \<Rightarrow> Inl err
            | Inr s \<Rightarrow>
                Inr [(''productType'', productType),
                     (''isActive'', JStr (toLowerCase s)),
                     (''limit'', limit),
                     (''offset'', offset)]))"

definition getProducts :: "env \<Rightarrow> ProductApi \<Rightarrow> jsval \<Rightarrow> world \<Rightarrow> (js_error + jsval) \<times> world" where
  "getProducts e api options w =
     (case getProducts_params e options of
        Inl err \<Rightarrow> (Inl err, w)
      | Inr params \<Rightarrow>
          request e ''GET'' (baseUrl api @ ''/products'') (getHeader api) JNull (Some params) w)"

text \<open>
  \<^verbatim>\<open>deleteProduct(friendlyId)\<close>, lines 406 to 413. The template literal converts
  \<^verbatim>\<open>friendlyId\<close> to a string; \<^verbatim>\<open>request\<close> is called with its defaults
  \<^verbatim>\<open>data = null\<close> and \<^verbatim>\<open>params = null\<close>.
\<close>

definition deleteProduct :: "env \<Rightarrow> ProductApi \<Rightarrow> jsval \<Rightarrow> world \<Rightarrow> (js_error + jsval) \<times> world" where
  "deleteProduct e api friendlyId w =
     (if \<not> truthy friendlyId then (Inl (Error ''friendlyId is required''), w)
      else (case to_string (number_text e) friendlyId of
              Inl err \<Rightarrow> (Inl err, w)
            | Inr s \<Rightarrow>
                request e ''DELETE'' (baseUrl api @ ''/products/'' @ s) (getHeader api) JNull None w))"

section \<open>Calls of the asynchronous methods\<close>

text \<open>
  \<^verbatim>\<open>request\<close>, \<^verbatim>\<open>uploadImage\<close>, \<^verbatim>\<open>addProduct\<close>, \<^verbatim>\<open>getProducts\<close> and
  \<^verbatim>\<open>deleteProduct\<close> are declared \<^verbatim>\<open>async\<close>. The definitions above give the body
  of each: \<open>Inl\<close> is the exception that leaves the body, \<open>Inr\<close> the value it returns. A call
  of an \<^verbatim>\<open>async\<close> function throws nothing to its caller: it returns a promise, which
  is rejected with the exception that left the body, or fulfilled with the value the body
  returned. The world is the one in which the promise has settled.
\<close>

datatype promise = Fulfilled jsval | Rejected js_error

datatype call_result = Throws js_error | Returns promise

definition async_call :: "(js_error + jsval) \<times> world \<Rightarrow> call_result \<times> world" where
  "async_call body =
     (case fst body of
        Inl err \<Rightarrow> (Returns (Rejected err), snd body)
      | Inr v \<Rightarrow> (Returns (Fulfilled v), snd body))"

text \<open>The call \<^verbatim>\<open>productApi.addProduct(productData)\<close>, line 260.\<close>

definition call_addProduct ::
  "env \<Rightarrow> ProductApi \<Rightarrow> jsval \<Rightarrow> world \<Rightarrow> call_result \<times> world" where
  "call_addProduct e api productData w = async_call (addProduct e api productData w)"

section \<open>The fallback chain as the specification words it\<close>

text \<open>
  The specification gives the message of a server-level failure as the first defined of
  the body's \<^verbatim>\<open>message\<close> field, the body's \<^verbatim>\<open>error\<close> field and a literal.
  This definition follows those words, for comparison with \<open>on_error\<close>.
\<close>

definition spec_first_defined :: "jsval \<Rightarrow> jsval" where
  "spec_first_defined body =
     (if opt_prop body ''message'' \<noteq> JUndefined then opt_prop body ''message''
      else if opt_prop body ''error'' \<noteq> JUndefined then opt_prop body ''error''
      else JStr ''Request failed'')"

section \<open>A sample platform\<close>

text \<open>
  A concrete platform on which the theorems below are applied to concrete calls: the
  network gives the same reply to every request, the clock advances 25 ms per reading, and
  the engine's texts are asked for integers only.
\<close>

fun nat_text :: "nat \<Rightarrow> string" where
  "nat_text n =
     (if n < 10 then [''0123456789'' ! n]
      else nat_text (n div 10) @ [''0123456789'' ! (n mod 10)])"

declare nat_text.simps [simp del]

definition int_text :: "int \<Rightarrow> string" where
  "int_text i = (if i < 0 then CHR ''-'' # nat_text (nat (- i)) else nat_text (nat i))"

fun sample_number_text :: "jsnum \<Rightarrow> string" where
  "sample_number_text (Fin r) = (if r = of_int \<lfloor>r\<rfloor> then int_text \<lfloor>r\<rfloor> else ''?'')"
| "sample_number_text NaN = ''NaN''"
| "sample_number_text PosInf = ''Infinity''"
| "sample_number_text NegInf = ''-Infinity''"

definition sample_env :: "wire \<Rightarrow> env" where
  "sample_env reply =
     \<lparr>net = (\<lambda>config. reply),
      now = (\<lambda>k. 1000 + 25 * int k),
      iso = (\<lambda>k. ''2026-01-01T00:00:00.000Z''),
      number_text = sample_number_text,
      query_string = (\<lambda>kvs. ''query''),
      kb_text = (\<lambda>d. ''0.01''),
      type_error_text = (\<lambda>t. ''TypeError'')\<rparr>"

definition world0 :: world where
  "world0 = \<lparr>calls = [], console = []\<rparr>"

definition sample_api :: ProductApi where
  "sample_api = \<lparr>apikey = JStr ''sk_live_1234567890abcdef'',
                  baseUrl = ''https://hstockplus.com/api/admin/v2''\<rparr>"

definition short_key_api :: ProductApi where
  "short_key_api = \<lparr>apikey = JStr ''abc'', baseUrl = ''https://hstockplus.com/api/admin/v2''\<rparr>"

text \<open>
  The product of the example in the documentation of \<^verbatim>\<open>addProduct\<close>, with a stock
  of 0 and no optional field but an empty \<^verbatim>\<open>image\<close>; and the same product without
  subproducts.
\<close>

definition sample_subproduct :: jsval where
  "sample_subproduct =
     JObj [(''sourceProductId'', JStr ''SUB-123456''),
           (''sourceName'', JStr ''Instagram Account 10K''),
           (''price'', JNum (Fin (2599 / 100))),
           (''stock'', JNum (Fin 0))]"

definition sample_product :: jsval where
  "sample_product =
     JObj [(''categoryName'', JStr ''Accounts''),
           (''subcategoryName'', JStr ''Instagram Accounts''),
           (''sourceProductId'', JStr ''PROD-123456''),
           (''name'', JStr ''Instagram Account - Verified''),
           (''subproducts'', JArr [sample_subproduct]),
           (''image'', JStr '''')]"

definition product_without_subproducts :: jsval where
  "product_without_subproducts =
     JObj [(''categoryName'', JStr ''Accounts''),
           (''subcategoryName'', JStr ''Instagram Accounts''),
           (''sourceProductId'', JStr ''PROD-123456''),
           (''name'', JStr ''Instagram Account - Verified''),
           (''subproducts'', JArr [])]"

section \<open>Properties of the request core\<close>

lemma request_reaches_transport:
  assumes "full_url e url params = Inr fullUrl" and "safeHeaders headers = Inr safe"
  shows "fst (request e method url headers data params w)
           = Inr (fst (try_block e (build_config method url headers data params)))"
    and "calls (snd (request e method url headers data params w))
           = calls w @ [build_config method url headers data params]"
  using assms by (simp_all add: request_def Let_def console_log_def)

lemma try_block_resolved:
  assumes "net e config = Responded s d" and "validateStatus s" and "d \<noteq> JUndefined"
  shows "fst (try_block e config)
           = JObj [(''success'', JBool True), (''status'', int_val s), (''data'', d),
                   (''duration'', int_val (now e 1 - now e 0))]"
  using assms by (simp add: try_block_def axios_def on_response_def Let_def)

lemma try_block_refused:
  assumes "net e config = Responded s d" and "\<not> validateStatus s"
  shows "fst (try_block e config)
           = JObj [(''success'', JBool False), (''status'', int_val s), (''error'', d),
                   (''message'',
                      js_or (js_or (opt_prop d ''message'') (opt_prop d ''error''))
                            (JStr ''Request failed'')),
                   (''duration'', int_val (now e 1 - now e 0))]"
  using assms by (simp add: try_block_def axios_def on_error_def Let_def)

lemma try_block_no_response:
  assumes "net e config = NoResponse m"
  shows "fst (try_block e config)
           = JObj [(''success'', JBool False), (''status'', JNull),
                   (''error'', JStr ''No response received''),
                   (''message'', JStr (if m = [] then ''Network error or server timeout'' else m)),
                   (''duration'', int_val (now e 1 - now e 0))]"
  using assms by (simp add: try_block_def axios_def on_error_def Let_def js_or_def)

lemma try_block_not_dispatched:
  assumes "net e config = NotDispatched m"
  shows "fst (try_block e config)
           = JObj [(''success'', JBool False), (''status'', JNull),
                   (''error'', JStr ''Request setup error''),
                   (''message'', JStr m),
                   (''duration'', int_val (now e 1 - now e 0))]"
  using assms by (simp add: try_block_def axios_def on_error_def Let_def)

lemma try_block_undefined_payload:
  assumes "net e config = Responded s JUndefined" and "validateStatus s"
  shows "fst (try_block e config)
           = JObj [(''success'', JBool False), (''status'', JNull),
                   (''error'', JStr ''Request setup error''),
                   (''message'', JStr (type_error_text e ByteLengthArg)),
                   (''duration'', int_val (now e 2 - now e 0))]"
  using assms by (simp add: try_block_def axios_def on_response_def on_error_def Let_def)

lemma safeHeaders_getHeader:
  "apikey api = JStr k \<Longrightarrow>
   safeHeaders (getHeader api)
     = Inr [(''X-Api-Key'', JStr (if k = [] then k else mask_key k)),
            (''Content-Type'', JStr ''application/json'')]"
  by (simp add: safeHeaders_def getHeader_def)

lemma full_url_no_params: "full_url e url None = Inr url"
  by (simp add: full_url_def)

lemma sample_env_simps:
  "net (sample_env reply) config = reply"
  "now (sample_env reply) k = 1000 + 25 * int k"
  "number_text (sample_env reply) = sample_number_text"
  "query_string (sample_env reply) kvs = ''query''"
  by (simp_all add: sample_env_def)

text \<open>
  C1. As stated (every server response, whatever its status, gives the success variant)
  the claim fails: a reply with status 404 is returned as the failure variant.
\<close>

theorem request_404_is_failure:
  "fst (request (sample_env (Responded 404 (JObj [(''error'', JStr ''Not found'')])))
          ''GET'' ''https://hstockplus.com/api/admin/v2/products'' (getHeader sample_api)
          JNull None world0)
   = Inr (JObj [(''success'', JBool False), (''status'', JNum (Fin 404)),
                (''error'', JObj [(''error'', JStr ''Not found'')]),
                (''message'', JStr ''Not found''), (''duration'', JNum (Fin 25))])"
  by (simp add: request_reaches_transport(1) [OF full_url_no_params safeHeaders_getHeader [of _ "''sk_live_1234567890abcdef''"]]
        sample_api_def try_block_refused [of _ _ 404] sample_env_simps validateStatus_def
        js_or_def opt_prop_def nullish_def int_val_def)

text \<open>
  C1, amended. Whenever the request reaches the transport and the server replies with a
  status in [200, 299] and a parsed payload (which is never \<^verbatim>\<open>undefined\<close>), the
  returned object is the success variant: \<^verbatim>\<open>success\<close> is true, \<^verbatim>\<open>status\<close> is the
  server's status code and \<^verbatim>\<open>data\<close> is the server's payload, unchanged.
\<close>

theorem request_success_envelope:
  assumes "full_url e url params = Inr fullUrl"
    and "safeHeaders headers = Inr safe"
    and "net e (build_config method url headers data params) = Responded s d"
    and "200 \<le> s" and "s \<le> 299"
    and "d \<noteq> JUndefined"
  shows "fst (request e method url headers data params w)
           = Inr (JObj [(''success'', JBool True), (''status'', int_val s), (''data'', d),
                        (''duration'', int_val (now e 1 - now e 0))])"
proof -
  have "validateStatus s"
    using assms(4,5) by (simp add: validateStatus_def)
  then show ?thesis
    using assms(1,2,3,6) by (simp add: request_reaches_transport(1) try_block_resolved)
qed

theorem request_success_envelope_witness:
  "fst (request (sample_env (Responded 200 (JObj [(''count'', JNum (Fin 0))])))
          ''GET'' ''https://hstockplus.com/api/admin/v2/products'' (getHeader sample_api)
          JNull None world0)
   = Inr (JObj [(''success'', JBool True), (''status'', JNum (Fin 200)),
                (''data'', JObj [(''count'', JNum (Fin 0))]),
                (''duration'', JNum (Fin 25))])"
proof -
  have key: "apikey sample_api = JStr ''sk_live_1234567890abcdef''"
    by (simp add: sample_api_def)
  show ?thesis
    using request_success_envelope
            [OF full_url_no_params safeHeaders_getHeader [OF key],
             of "sample_env (Responded 200 (JObj [(''count'', JNum (Fin 0))]))"
                "''GET''" "''https://hstockplus.com/api/admin/v2/products''" JNull
                200 "JObj [(''count'', JNum (Fin 0))]" world0]
    by (simp add: sample_env_simps int_val_def)
qed

text \<open>
  C2. As stated (the message is the first \<^emph>\<open>defined\<close> of the three) the claim fails: with
  a body whose \<^verbatim>\<open>message\<close> field is the empty string, the first defined value is
  that empty string, and the returned message is the body's \<^verbatim>\<open>error\<close> field.
\<close>

theorem request_message_skips_empty:
  "fst (request
          (sample_env (Responded 400
             (JObj [(''message'', JStr ''''), (''error'', JStr ''Bad input'')])))
          ''POST'' ''https://hstockplus.com/api/admin/v2/products''
          (getHeader sample_api) JNull None world0)
     = Inr (JObj [(''success'', JBool False), (''status'', JNum (Fin 400)),
                  (''error'', JObj [(''message'', JStr ''''), (''error'', JStr ''Bad input'')]),
                  (''message'', JStr ''Bad input''),
                  (''duration'', JNum (Fin 25))])
   \<and> spec_first_defined (JObj [(''message'', JStr ''''), (''error'', JStr ''Bad input'')])
     = JStr ''''"
  by (simp add: request_reaches_transport(1) [OF full_url_no_params safeHeaders_getHeader [of _ "''sk_live_1234567890abcdef''"]]
        sample_api_def try_block_refused [of _ _ 400] sample_env_simps validateStatus_def
        js_or_def opt_prop_def nullish_def spec_first_defined_def int_val_def)

text \<open>
  C2, amended. Whenever the request reaches the transport and the server replies with a
  status outside [200, 299], the returned object has \<^verbatim>\<open>success\<close> false,
  \<^verbatim>\<open>status\<close> the server's status code, \<^verbatim>\<open>error\<close> the response body, and
  \<^verbatim>\<open>message\<close> the first \<^emph>\<open>truthy\<close> of the body's \<^verbatim>\<open>message\<close> field and the
  body's \<^verbatim>\<open>error\<close> field, and the literal \<^verbatim>\<open>Request failed\<close> when neither is
  truthy (in particular when the body is not an object).
\<close>

theorem request_failure_envelope:
  assumes "full_url e url params = Inr fullUrl"
    and "safeHeaders headers = Inr safe"
    and "net e (build_config method url headers data params) = Responded s d"
    and "s < 200 \<or> 299 < s"
  shows "fst (request e method url headers data params w)
           = Inr (JObj [(''success'', JBool False), (''status'', int_val s), (''error'', d),
                        (''message'',
                           if truthy (opt_prop d ''message'') then opt_prop d ''message''
                           else if truthy (opt_prop d ''error'') then opt_prop d ''error''
                           else JStr ''Request failed''),
                        (''duration'', int_val (now e 1 - now e 0))])"
proof -
  have "\<not> validateStatus s"
    using assms(4) by (auto simp add: validateStatus_def)
  then show ?thesis
    using assms(1,2,3)
    by (simp add: request_reaches_transport(1) try_block_refused js_or_def)
qed

theorem request_failure_envelope_witness:
  "fst (request (sample_env (Responded 500 (JStr ''Internal Server Error'')))
          ''DELETE'' ''https://hstockplus.com/api/admin/v2/products/1001''
          (getHeader sample_api) JNull None world0)
   = Inr (JObj [(''success'', JBool False), (''status'', JNum (Fin 500)),
                (''error'', JStr ''Internal Server Error''),
                (''message'', JStr ''Request failed''),
                (''duration'', JNum (Fin 25))])"
proof -
  have key: "apikey sample_api = JStr ''sk_live_1234567890abcdef''"
    by (simp add: sample_api_def)
  show ?thesis
    using request_failure_envelope
            [OF full_url_no_params safeHeaders_getHeader [OF key],
             of "sample_env (Responded 500 (JStr ''Internal Server Error''))"
                "''DELETE''" "''https://hstockplus.com/api/admin/v2/products/1001''" JNull
                500 "JStr ''Internal Server Error''" world0]
    by (simp add: sample_env_simps int_val_def opt_prop_def nullish_def)
qed

text \<open>
  C3. Whenever the request reaches the transport and no response arrives, the returned
  object has \<^verbatim>\<open>success\<close> false, \<^verbatim>\<open>status\<close> null, \<^verbatim>\<open>error\<close> the literal
  \<^verbatim>\<open>No response received\<close>, and \<^verbatim>\<open>message\<close> the transport error's text, or
  \<^verbatim>\<open>Network error or server timeout\<close> when that text is empty.
\<close>

theorem request_no_response_envelope:
  assumes "full_url e url params = Inr fullUrl"
    and "safeHeaders headers = Inr safe"
    and "net e (build_config method url headers data params) = NoResponse m"
  shows "fst (request e method url headers data params w)
           = Inr (JObj [(''success'', JBool False), (''status'', JNull),
                        (''error'', JStr ''No response received''),
                        (''message'',
                           JStr (if m = [] then ''Network error or server timeout'' else m)),
                        (''duration'', int_val (now e 1 - now e 0))])"
  using assms by (simp add: request_reaches_transport(1) try_block_no_response)

theorem request_no_response_envelope_witness:
  "fst (request (sample_env (NoResponse ''timeout of 30000ms exceeded''))
          ''GET'' ''https://hstockplus.com/api/admin/v2/products'' (getHeader sample_api)
          JNull None world0)
     = Inr (JObj [(''success'', JBool False), (''status'', JNull),
                  (''error'', JStr ''No response received''),
                  (''message'', JStr ''timeout of 30000ms exceeded''),
                  (''duration'', JNum (Fin 25))])
   \<and> fst (request (sample_env (NoResponse ''''))
          ''GET'' ''https://hstockplus.com/api/admin/v2/products'' (getHeader sample_api)
          JNull None world0)
     = Inr (JObj [(''success'', JBool False), (''status'', JNull),
                  (''error'', JStr ''No response received''),
                  (''message'', JStr ''Network error or server timeout''),
                  (''duration'', JNum (Fin 25))])"
proof -
  have key: "apikey sample_api = JStr ''sk_live_1234567890abcdef''"
    by (simp add: sample_api_def)
  note inst = request_no_response_envelope
                [OF full_url_no_params safeHeaders_getHeader [OF key],
                 of _ "''GET''" "''https://hstockplus.com/api/admin/v2/products''" JNull _ world0]
  show ?thesis
    using inst [of "sample_env (NoResponse ''timeout of 30000ms exceeded'')"
                   "''timeout of 30000ms exceeded''"]
          inst [of "sample_env (NoResponse '''')" "''''"]
    by (simp add: sample_env_simps int_val_def)
qed

text \<open>
  C4. Once the request reaches the transport, \<^verbatim>\<open>request\<close> returns an object and
  throws nothing, whatever the transport does. A reply with a refused status and a missing
  response are returned with \<^verbatim>\<open>success\<close> false; a request that could not be sent is
  returned with \<^verbatim>\<open>success\<close> false, \<^verbatim>\<open>status\<close> null, \<^verbatim>\<open>error\<close> the literal
  \<^verbatim>\<open>Request setup error\<close> and \<^verbatim>\<open>message\<close> the exception's text.
\<close>

theorem request_never_raises:
  assumes "full_url e url params = Inr fullUrl"
    and "safeHeaders headers = Inr safe"
  shows "\<exists>envelope.
           fst (request e method url headers data params w) = Inr envelope
         \<and> (case net e (build_config method url headers data params) of
              Responded s d \<Rightarrow>
                (if validateStatus s then True else field envelope ''success'' = JBool False)
            | NoResponse m \<Rightarrow> field envelope ''success'' = JBool False
            | NotDispatched m \<Rightarrow>
                envelope = JObj [(''success'', JBool False), (''status'', JNull),
                                 (''error'', JStr ''Request setup error''),
                                 (''message'', JStr m),
                                 (''duration'', int_val (now e 1 - now e 0))])"
proof (cases "net e (build_config method url headers data params)")
  case (Responded s d)
  then show ?thesis
    using assms by (simp add: request_reaches_transport(1) try_block_refused)
next
  case (NoResponse m)
  then show ?thesis
    using assms by (simp add: request_reaches_transport(1) try_block_no_response)
next
  case (NotDispatched m)
  then show ?thesis
    using assms by (simp add: request_reaches_transport(1) try_block_not_dispatched)
qed

theorem request_never_raises_witness:
  "fst (request (sample_env (NotDispatched ''Invalid URL''))
          ''GET'' ''not a url'' (getHeader sample_api) JNull None world0)
     = Inr (JObj [(''success'', JBool False), (''status'', JNull),
                  (''error'', JStr ''Request setup error''),
                  (''message'', JStr ''Invalid URL''),
                  (''duration'', JNum (Fin 25))])"
proof -
  have key: "apikey sample_api = JStr ''sk_live_1234567890abcdef''"
    by (simp add: sample_api_def)
  show ?thesis
    using request_never_raises
            [OF full_url_no_params safeHeaders_getHeader [OF key],
             of "sample_env (NotDispatched ''Invalid URL'')" "''GET''" "''not a url''"
                JNull world0]
    by (auto simp add: sample_env_simps int_val_def)
qed

section \<open>Properties of the endpoints\<close>

lemma request_with_string_key:
  assumes "apikey api = JStr k" and "full_url e url params = Inr fullUrl"
  shows "fst (request e method url (getHeader api) data params w)
           = Inr (fst (try_block e (build_config method url (getHeader api) data params)))"
    and "calls (snd (request e method url (getHeader api) data params w))
           = calls w @ [build_config method url (getHeader api) data params]"
  using request_reaches_transport [OF assms(2) safeHeaders_getHeader [OF assms(1)]]
  by simp_all

lemma bad_subproducts_iff:
  "bad_subproducts v \<longleftrightarrow> (\<forall>xs. v \<noteq> JArr xs) \<or> v = JArr []"
  by (cases v) simp_all

lemma map_of_set_field:
  "map_of (set_field k v kvs) k' = (if k' = k then Some v else map_of kvs k')"
  by (simp add: set_field_def update_conv')

lemma map_of_set_if_truthy:
  "map_of (set_if_truthy k v kvs) k' = (if k' = k \<and> truthy v then Some v else map_of kvs k')"
  by (simp add: set_if_truthy_def map_of_set_field)

lemma addProduct_body_throws:
  assumes "\<not> truthy (field productData ''categoryName'')
         \<or> \<not> truthy (field productData ''subcategoryName'')
         \<or> \<not> truthy (field productData ''sourceProductId'')
         \<or> \<not> truthy (field productData ''name'')
         \<or> (\<forall>xs. field productData ''subproducts'' \<noteq> JArr xs)
         \<or> field productData ''subproducts'' = JArr []"
  shows "\<exists>err. addProduct e api productData w = (Inl err, w)"
proof -
  have "validate_product productData \<noteq> None"
    using assms by (auto simp add: validate_product_def bad_subproducts_iff)
  then show ?thesis
    by (auto simp add: addProduct_def)
qed

text \<open>
  C5. As stated (the error is raised synchronously) the claim fails: \<^verbatim>\<open>addProduct\<close>
  is declared \<^verbatim>\<open>async\<close>, so the call with \<^verbatim>\<open>subproducts: []\<close> throws nothing
  to its caller. It returns a promise, rejected with the validation error; the world is
  as it was.
\<close>

theorem addProduct_call_returns_rejected_promise:
  "call_addProduct (sample_env (Responded 200 JNull)) sample_api
     product_without_subproducts world0
   = (Returns (Rejected
        (Error ''subproducts is required and must contain at least one subproduct'')),
      world0)"
  by (simp add: call_addProduct_def async_call_def addProduct_def validate_product_def
        product_without_subproducts_def nullish_def)

text \<open>
  C5, amended. A call of \<^verbatim>\<open>addProduct\<close> whose argument has a falsy (empty or
  missing) \<^verbatim>\<open>categoryName\<close>, \<^verbatim>\<open>subcategoryName\<close>, \<^verbatim>\<open>sourceProductId\<close> or
  \<^verbatim>\<open>name\<close>, or whose \<^verbatim>\<open>subproducts\<close> is missing, not an array or empty,
  returns a promise that is rejected with an error, and leaves the world as it was:
  nothing was handed to the transport and nothing was printed.
\<close>

theorem addProduct_promise_rejected_before_dispatch:
  assumes "\<not> truthy (field productData ''categoryName'')
         \<or> \<not> truthy (field productData ''subcategoryName'')
         \<or> \<not> truthy (field productData ''sourceProductId'')
         \<or> \<not> truthy (field productData ''name'')
         \<or> (\<forall>xs. field productData ''subproducts'' \<noteq> JArr xs)
         \<or> field productData ''subproducts'' = JArr []"
  shows "\<exists>err. call_addProduct e api productData w = (Returns (Rejected err), w)"
proof -
  obtain err where "addProduct e api productData w = (Inl err, w)"
    using addProduct_body_throws [OF assms] by blast
  then show ?thesis
    by (simp add: call_addProduct_def async_call_def)
qed

theorem addProduct_promise_rejected_before_dispatch_witness:
  "field product_without_subproducts ''subproducts'' = JArr []
   \<and> (\<exists>err. call_addProduct (sample_env (Responded 200 JNull)) sample_api
               product_without_subproducts world0 = (Returns (Rejected err), world0))"
  using addProduct_promise_rejected_before_dispatch
          [of product_without_subproducts "sample_env (Responded 200 JNull)" sample_api world0]
  by (simp add: product_without_subproducts_def)

lemma validate_subproducts_all_pass:
  "(\<And>sp. sp \<in> set xs \<Longrightarrow> validate_subproduct sp = None) \<Longrightarrow> validate_subproducts xs = None"
  by (induction xs) simp_all

text \<open>
  C6. The validation of a subproduct entry rejects its \<^verbatim>\<open>price\<close> only when the
  field is \<^verbatim>\<open>undefined\<close> or \<^verbatim>\<open>null\<close>, and likewise its \<^verbatim>\<open>stock\<close>; an
  entry whose \<^verbatim>\<open>sourceProductId\<close> and \<^verbatim>\<open>sourceName\<close> are non-empty and whose
  \<^verbatim>\<open>price\<close> and \<^verbatim>\<open>stock\<close> are present passes (the number 0 is present);
  and a list of such entries passes the loop with no error.
\<close>

theorem subproduct_price_stock_presence:
  "(validate_subproduct sp = Some (Error ''subproduct.price is required'')
      \<longrightarrow> field sp ''price'' = JUndefined \<or> field sp ''price'' = JNull)
   \<and> (validate_subproduct sp = Some (Error ''subproduct.stock is required'')
      \<longrightarrow> field sp ''stock'' = JUndefined \<or> field sp ''stock'' = JNull)
   \<and> (truthy (field sp ''sourceProductId'') \<and> truthy (field sp ''sourceName'')
       \<and> field sp ''price'' \<noteq> JUndefined \<and> field sp ''price'' \<noteq> JNull
       \<and> field sp ''stock'' \<noteq> JUndefined \<and> field sp ''stock'' \<noteq> JNull
      \<longrightarrow> validate_subproduct sp = None)
   \<and> ((\<forall>s \<in> set xs.
          truthy (field s ''sourceProductId'') \<and> truthy (field s ''sourceName'')
          \<and> field s ''price'' \<noteq> JUndefined \<and> field s ''price'' \<noteq> JNull
          \<and> field s ''stock'' \<noteq> JUndefined \<and> field s ''stock'' \<noteq> JNull)
      \<longrightarrow> validate_subproducts xs = None)"
proof -
  have pass: "validate_subproduct s = None"
    if "truthy (field s ''sourceProductId'') \<and> truthy (field s ''sourceName'')
        \<and> field s ''price'' \<noteq> JUndefined \<and> field s ''price'' \<noteq> JNull
        \<and> field s ''stock'' \<noteq> JUndefined \<and> field s ''stock'' \<noteq> JNull" for s
  proof -
    from that have "\<not> nullish s"
      by (auto simp add: nullish_def)
    with that show ?thesis
      by (simp add: validate_subproduct_def)
  qed
  have price: "field sp ''price'' = JUndefined \<or> field sp ''price'' = JNull"
    if "validate_subproduct sp = Some (Error ''subproduct.price is required'')"
    using that by (simp add: validate_subproduct_def split: if_splits)
  have stock: "field sp ''stock'' = JUndefined \<or> field sp ''stock'' = JNull"
    if "validate_subproduct sp = Some (Error ''subproduct.stock is required'')"
    using that by (simp add: validate_subproduct_def split: if_splits)
  show ?thesis
    using pass price stock by (blast intro: validate_subproducts_all_pass)
qed

theorem subproduct_price_stock_presence_witness:
  "field sample_subproduct ''stock'' = JNum (Fin 0)
   \<and> validate_subproduct sample_subproduct = None
   \<and> validate_subproducts [sample_subproduct] = None"
  using subproduct_price_stock_presence [of sample_subproduct "[sample_subproduct]"]
  by (simp add: sample_subproduct_def)

lemma addProduct_dispatches:
  assumes "apikey api = JStr k" and "validate_product productData = None"
  shows "calls (snd (addProduct e api productData w))
           = calls w @ [\<lparr>cfg_method = ''POST'', cfg_url = baseUrl api @ ''/products'',
                          cfg_headers = getHeader api, cfg_timeout = 30000,
                          cfg_params = None,
                          cfg_data = Some (JObj (build_payload productData))\<rparr>]"
  using assms
  by (simp add: addProduct_def request_with_string_key(2) [OF assms(1) full_url_no_params]
        build_config_def has_params_def)

lemma build_payload_optional:
  "map_of (build_payload productData) ''sourceUrl''
     = (if truthy (field productData ''sourceUrl'') then Some (field productData ''sourceUrl'') else None)"
  "map_of (build_payload productData) ''provider''
     = (if truthy (field productData ''provider'') then Some (field productData ''provider'') else None)"
  "map_of (build_payload productData) ''description''
     = (if truthy (field productData ''description'') then Some (field productData ''description'') else None)"
  "map_of (build_payload productData) ''descriptionText''
     = (if truthy (field productData ''descriptionText'') then Some (field productData ''descriptionText'') else None)"
  "map_of (build_payload productData) ''image''
     = (if truthy (field productData ''image'') then Some (field productData ''image'') else None)"
  "map_of (build_payload productData) ''productType''
     = (if truthy (field productData ''productType'') then Some (field productData ''productType'') else None)"
  by (simp_all add: build_payload_def Let_def map_of_set_field map_of_set_if_truthy dflt_def)

text \<open>
  C10. When \<^verbatim>\<open>addProduct\<close> is called by a client with a string key and the argument
  passes validation, one request is handed to the transport, a POST whose body is the
  payload; the payload has a field \<^verbatim>\<open>warrantyDays\<close>, which is 7 when the caller
  left it out, and a field \<^verbatim>\<open>active\<close>, which is true when the caller left it out; and
  it has no field \<^verbatim>\<open>sourceUrl\<close>, \<^verbatim>\<open>provider\<close>, \<^verbatim>\<open>description\<close>,
  \<^verbatim>\<open>descriptionText\<close>, \<^verbatim>\<open>image\<close> or \<^verbatim>\<open>productType\<close> whose supplied
  value is falsy.
\<close>

theorem addProduct_payload_fields:
  assumes "apikey api = JStr k" and "validate_product productData = None"
  shows "(\<exists>config payload.
            calls (snd (addProduct e api productData w)) = calls w @ [config]
          \<and> cfg_method config = ''POST''
          \<and> cfg_data config = Some (JObj payload)
          \<and> map_of payload ''warrantyDays''
              = Some (if field productData ''warrantyDays'' = JUndefined then JNum (Fin 7)
                      else field productData ''warrantyDays'')
          \<and> map_of payload ''active''
              = Some (if field productData ''active'' = JUndefined then JBool True
                      else field productData ''active'')
          \<and> (\<forall>k \<in> set [''sourceUrl'', ''provider'', ''description'', ''descriptionText'',
                         ''image'', ''productType''].
                map_of payload k
                  = (if truthy (field productData k) then Some (field productData k) else None)))"
proof -
  let ?payload = "build_payload productData"
  have w: "map_of ?payload ''warrantyDays''
             = Some (if field productData ''warrantyDays'' = JUndefined then JNum (Fin 7)
                     else field productData ''warrantyDays'')"
    by (simp add: build_payload_def Let_def map_of_set_field map_of_set_if_truthy dflt_def)
  have a: "map_of ?payload ''active''
             = Some (if field productData ''active'' = JUndefined then JBool True
                     else field productData ''active'')"
    by (simp add: build_payload_def Let_def map_of_set_field map_of_set_if_truthy dflt_def)
  have o: "\<forall>k \<in> set [''sourceUrl'', ''provider'', ''description'', ''descriptionText'',
                       ''image'', ''productType''].
             map_of ?payload k
               = (if truthy (field productData k) then Some (field productData k) else None)"
    by (simp add: build_payload_optional)
  show ?thesis
    using addProduct_dispatches [OF assms, of e w] w a o
    by (intro exI [of _ "\<lparr>cfg_method = ''POST'', cfg_url = baseUrl api @ ''/products'',
                          cfg_headers = getHeader api, cfg_timeout = 30000,
                          cfg_params = None,
                          cfg_data = Some (JObj (build_payload productData))\<rparr>"]
              exI [of _ ?payload]) simp
qed

theorem addProduct_payload_fields_witness:
  "validate_product sample_product = None
   \<and> (\<exists>config payload.
         calls (snd (addProduct (sample_env (Responded 200 JNull)) sample_api
                       sample_product world0)) = [config]
       \<and> cfg_data config = Some (JObj payload)
       \<and> map_of payload ''warrantyDays'' = Some (JNum (Fin 7))
       \<and> map_of payload ''active'' = Some (JBool True)
       \<and> map_of payload ''image'' = None
       \<and> map_of payload ''productType'' = None)"
proof -
  have key: "apikey sample_api = JStr ''sk_live_1234567890abcdef''"
    by (simp add: sample_api_def)
  have valid: "validate_product sample_product = None"
    by (simp add: validate_product_def sample_product_def sample_subproduct_def nullish_def
          validate_subproduct_def)
  have fields: "field sample_product ''warrantyDays'' = JUndefined"
    "field sample_product ''active'' = JUndefined"
    "field sample_product ''image'' = JStr ''''"
    "field sample_product ''productType'' = JUndefined"
    by (simp_all add: sample_product_def)
  show ?thesis
    using addProduct_payload_fields
            [OF key valid, of "sample_env (Responded 200 JNull)" world0]
    by (auto simp add: valid fields world0_def)
qed


lemma request_console:
  assumes "full_url e url params = Inr fullUrl" and "safeHeaders headers = Inr safe"
  shows "console (snd (request e method url headers data params w))
           = console w @ request_log_head e method fullUrl
               @ request_log_tail safe data params
               @ snd (try_block e (build_config method url headers data params))"
  using assms by (simp add: request_def Let_def console_log_def)

lemma toLowerCase_booleans:
  "toLowerCase ''true'' = ''true''" "toLowerCase ''false'' = ''false''"
  by (simp_all add: toLowerCase_def lower_char_def)

lemma getProducts_params_default:
  "getProducts_params e JUndefined
     = Inr [(''productType'', JStr ''auto''), (''isActive'', JStr ''true''),
            (''limit'', JNum (Fin 50)), (''offset'', JNum (Fin 0))]"
  by (simp add: getProducts_params_def dflt_def call_toString_def nullish_def
        toLowerCase_booleans)


lemma full_url_default_query:
  "full_url e url (Some [(''productType'', JStr ''auto''), (''isActive'', JStr ''true''),
                         (''limit'', JNum (Fin 50)), (''offset'', JNum (Fin 0))])
     = Inr (url @ (if CHR ''?'' \<in> set url then ''&'' else ''?'')
              @ query_string e [(''productType'', JStr ''auto''), (''isActive'', JStr ''true''),
                                (''limit'', JNum (Fin 50)), (''offset'', JNum (Fin 0))])"
  by (simp add: full_url_def search_params_text_def)



lemma mask_key_example: "mask_key ''sk_live_1234567890abcdef'' = ''sk_live_...cdef''"
  by (simp add: mask_key_def)

text \<open>
  C8. The claim fails on the code for a short key. The constructor accepts the key
  \<^verbatim>\<open>abc\<close>; a call of \<^verbatim>\<open>getProducts\<close> then prints the headers with
  \<^verbatim>\<open>X-Api-Key\<close> shown as \<^verbatim>\<open>abc...abc\<close>, in which the raw key appears verbatim.
\<close>

theorem short_key_is_logged:
  "new_ProductApi (JStr ''abc'') = Inr short_key_api
   \<and> Json (JObj [(''X-Api-Key'', JStr ''abc...abc''),
                 (''Content-Type'', JStr ''application/json'')])
       \<in> set (console (snd (getProducts (sample_env (Responded 200 (JObj [])))
                               short_key_api JUndefined world0)))
   \<and> sublist ''abc'' ''abc...abc''"
proof -
  have key: "apikey short_key_api = JStr ''abc''"
    by (simp add: short_key_api_def)
  have "sublist ''abc'' ([] @ ''abc'' @ ''...abc'')"
    by (rule sublist_appendI)
  then have "sublist ''abc'' ''abc...abc''"
    by simp
  moreover have "new_ProductApi (JStr ''abc'') = Inr short_key_api"
    by (simp add: new_ProductApi_def short_key_api_def)
  moreover have "Json (JObj [(''X-Api-Key'', JStr ''abc...abc''),
                             (''Content-Type'', JStr ''application/json'')])
       \<in> set (console (snd (getProducts (sample_env (Responded 200 (JObj [])))
                               short_key_api JUndefined world0)))"
    by (simp add: getProducts_def getProducts_params_default
          request_console [OF full_url_default_query safeHeaders_getHeader [OF key]]
          request_log_tail_def mask_key_def)
  ultimately show ?thesis
    by simp
qed

lemma deleteProduct_dispatches:
  assumes "apikey api = JStr k" and "truthy friendlyId"
    and "to_string (number_text e) friendlyId = Inr s"
  shows "calls (snd (deleteProduct e api friendlyId w))
           = calls w @ [\<lparr>cfg_method = ''DELETE'', cfg_url = baseUrl api @ ''/products/'' @ s,
                          cfg_headers = getHeader api, cfg_timeout = 30000,
                          cfg_params = None, cfg_data = None\<rparr>]"
    and "fst (deleteProduct e api friendlyId w)
           = Inr (fst (try_block e
                         \<lparr>cfg_method = ''DELETE'', cfg_url = baseUrl api @ ''/products/'' @ s,
                          cfg_headers = getHeader api, cfg_timeout = 30000,
                          cfg_params = None, cfg_data = None\<rparr>))"
  using assms(2,3) request_with_string_key [OF assms(1) full_url_no_params,
          of e "''DELETE''" "baseUrl api @ ''/products/'' @ s" JNull w]
  by (simp_all add: deleteProduct_def build_config_def has_params_def)

text \<open>
  C9. As stated (for every truthy \<^verbatim>\<open>friendlyId\<close> the server's response body is
  returned as \<^verbatim>\<open>result.data\<close>) the claim fails: when the server answers
  \<^verbatim>\<open>deleteProduct(1001)\<close> with status 404, the returned object carries the body in
  \<^verbatim>\<open>error\<close> and has no \<^verbatim>\<open>data\<close> field.
\<close>

theorem deleteProduct_404_has_no_data:
  "fst (deleteProduct
          (sample_env (Responded 404
             (JObj [(''success'', JBool False), (''message'', JStr ''Product not found'')])))
          sample_api (JNum (Fin 1001)) world0)
     = Inr (JObj [(''success'', JBool False), (''status'', JNum (Fin 404)),
                  (''error'',
                     JObj [(''success'', JBool False), (''message'', JStr ''Product not found'')]),
                  (''message'', JStr ''Product not found''),
                  (''duration'', JNum (Fin 25))])
   \<and> field (JObj [(''success'', JBool False), (''status'', JNum (Fin 404)),
                  (''error'',
                     JObj [(''success'', JBool False), (''message'', JStr ''Product not found'')]),
                  (''message'', JStr ''Product not found''),
                  (''duration'', JNum (Fin 25))])
           ''data''
     = JUndefined"
proof -
  have key: "apikey sample_api = JStr ''sk_live_1234567890abcdef''"
    by (simp add: sample_api_def)
  have conv: "to_string (number_text (sample_env reply)) (JNum (Fin 1001)) = Inr ''1001''" for reply
    by (simp add: sample_env_simps int_text_def nat_text.simps)
  have sent: "truthy (JNum (Fin 1001))"
    by simp
  show ?thesis
    by (simp add: deleteProduct_dispatches(2) [OF key sent conv]
          try_block_refused [of _ _ 404] sample_env_simps validateStatus_def
          js_or_def opt_prop_def nullish_def int_val_def)
qed

text \<open>
  C9, amended. For a client with a string key and a \<^verbatim>\<open>friendlyId\<close> that converts to
  a string \<open>s\<close> (every number and every string does), \<^verbatim>\<open>deleteProduct\<close> throws
  exactly when \<^verbatim>\<open>friendlyId\<close> is falsy, and then nothing is handed to the transport.
  Otherwise it hands one request to the transport, a DELETE to the base URL followed by
  \<^verbatim>\<open>/products/\<close> and \<open>s\<close>. When the server answers that request with a status in
  [200, 299] and a body, the returned object's \<^verbatim>\<open>data\<close> is that body, unchanged;
  when it answers with a status outside [200, 299], the returned object has
  \<^verbatim>\<open>success\<close> false, the body as \<^verbatim>\<open>error\<close>, and no \<^verbatim>\<open>data\<close>.
\<close>

theorem deleteProduct_round_trip:
  assumes "apikey api = JStr k"
    and "to_string (number_text e) friendlyId = Inr s"
  shows "((\<exists>err. fst (deleteProduct e api friendlyId w) = Inl err) \<longleftrightarrow> \<not> truthy friendlyId)
       \<and> (\<not> truthy friendlyId \<longrightarrow> snd (deleteProduct e api friendlyId w) = w)
       \<and> (truthy friendlyId \<longrightarrow>
            calls (snd (deleteProduct e api friendlyId w))
              = calls w @ [\<lparr>cfg_method = ''DELETE'',
                             cfg_url = baseUrl api @ ''/products/'' @ s,
                             cfg_headers = getHeader api, cfg_timeout = 30000,
                             cfg_params = None, cfg_data = None\<rparr>]
          \<and> (\<forall>status body.
                 net e \<lparr>cfg_method = ''DELETE'', cfg_url = baseUrl api @ ''/products/'' @ s,
                        cfg_headers = getHeader api, cfg_timeout = 30000,
                        cfg_params = None, cfg_data = None\<rparr> = Responded status body
                 \<and> 200 \<le> status \<and> status \<le> 299 \<and> body \<noteq> JUndefined
               \<longrightarrow> (\<exists>envelope.
                      fst (deleteProduct e api friendlyId w) = Inr envelope
                    \<and> field envelope ''success'' = JBool True
                    \<and> field envelope ''data'' = body))
          \<and> (\<forall>status body.
                 net e \<lparr>cfg_method = ''DELETE'', cfg_url = baseUrl api @ ''/products/'' @ s,
                        cfg_headers = getHeader api, cfg_timeout = 30000,
                        cfg_params = None, cfg_data = None\<rparr> = Responded status body
                 \<and> (status < 200 \<or> 299 < status)
               \<longrightarrow> (\<exists>envelope.
                      fst (deleteProduct e api friendlyId w) = Inr envelope
                    \<and> field envelope ''success'' = JBool False
                    \<and> field envelope ''error'' = body
                    \<and> field envelope ''data'' = JUndefined)))"
proof (cases "truthy friendlyId")
  case False
  then show ?thesis
    by (simp add: deleteProduct_def)
next
  case True
  let ?config = "\<lparr>cfg_method = ''DELETE'', cfg_url = baseUrl api @ ''/products/'' @ s,
                   cfg_headers = getHeader api, cfg_timeout = 30000,
                   cfg_params = None, cfg_data = None\<rparr>"
  note sent = deleteProduct_dispatches [OF assms(1) True assms(2), of w]
  have accepted: "field (fst (try_block e ?config)) ''data'' = body
      \<and> field (fst (try_block e ?config)) ''success'' = JBool True"
    if "net e ?config = Responded status body" and "200 \<le> status" and "status \<le> 299"
      and "body \<noteq> JUndefined" for status body
    using that by (simp add: try_block_resolved validateStatus_def)
  have refused: "field (fst (try_block e ?config)) ''success'' = JBool False
      \<and> field (fst (try_block e ?config)) ''error'' = body
      \<and> field (fst (try_block e ?config)) ''data'' = JUndefined"
    if "net e ?config = Responded status body" and "status < 200 \<or> 299 < status"
    for status body
  proof -
    have "\<not> validateStatus status"
      using that(2) by (auto simp add: validateStatus_def)
    then show ?thesis
      using that(1) by (simp add: try_block_refused)
  qed
  show ?thesis
    using True sent accepted refused by simp
qed

theorem deleteProduct_round_trip_witness:
  "calls (snd (deleteProduct
                 (sample_env (Responded 200
                    (JObj [(''success'', JBool True), (''message'', JStr ''Product deleted''),
                           (''friendlyId'', JNum (Fin 1001)), (''productId'', JStr ''p-77'')])))
                 sample_api (JNum (Fin 1001)) world0))
     = [\<lparr>cfg_method = ''DELETE'',
         cfg_url = ''https://hstockplus.com/api/admin/v2/products/1001'',
         cfg_headers = [(''X-Api-Key'', JStr ''sk_live_1234567890abcdef''),
                        (''Content-Type'', JStr ''application/json'')],
         cfg_timeout = 30000, cfg_params = None, cfg_data = None\<rparr>]
   \<and> (\<exists>envelope.
         fst (deleteProduct
                (sample_env (Responded 200
                   (JObj [(''success'', JBool True), (''message'', JStr ''Product deleted''),
                          (''friendlyId'', JNum (Fin 1001)), (''productId'', JStr ''p-77'')])))
                sample_api (JNum (Fin 1001)) world0) = Inr envelope
       \<and> field envelope ''data''
           = JObj [(''success'', JBool True), (''message'', JStr ''Product deleted''),
                   (''friendlyId'', JNum (Fin 1001)), (''productId'', JStr ''p-77'')])"
proof -
  have key: "apikey sample_api = JStr ''sk_live_1234567890abcdef''"
    by (simp add: sample_api_def)
  have conv: "to_string (number_text (sample_env reply)) (JNum (Fin 1001)) = Inr ''1001''" for reply
    by (simp add: sample_env_simps int_text_def nat_text.simps)
  show ?thesis
    using deleteProduct_round_trip
            [OF key conv
               [of "Responded 200
                      (JObj [(''success'', JBool True), (''message'', JStr ''Product deleted''),
                             (''friendlyId'', JNum (Fin 1001)), (''productId'', JStr ''p-77'')])"],
             of world0]
    by (auto simp add: world0_def sample_api_def getHeader_def sample_env_simps)
qed

end
